theory Spec2Isabelle
  imports Complex_Main
begin

section \<open>Python values, dictionaries and exceptions\<close>

text \<open>
  Values that travel through the data-access layer are JSON-like Python values. A Python
  \<open>dict\<close> with string keys is an association list with distinct keys, in insertion order.
  Numbers are restricted to integers, the only numbers the code compares (status codes).
\<close>

datatype json =
  JNull
| JBool bool
| JNum int
| JStr string
| JArr "json list"
| JObj "(string \<times> json) list"

type_synonym wire = "(string \<times> json) list"

text \<open>
  Exceptions are values. \<open>Raised\<close> is an exception coming out of a library call (the HTTP
  transport, the auth client); \<open>PyException\<close> is \<open>raise Exception(msg)\<close>. All of them are
  instances of Python's \<open>Exception\<close>.
\<close>

datatype exn =
  ValueError
| IndexError
| KeyError
| TypeError
| AttributeError
| JSONDecodeError
| Raised string
| PyException string

text \<open>\<open>d.get(k)\<close> on a dict: \<open>None\<close> when the key is absent.\<close>

definition dict_get :: "wire \<Rightarrow> string \<Rightarrow> json" where
  "dict_get d k = (case map_of d k of None \<Rightarrow> JNull | Some v \<Rightarrow> v)"

text \<open>\<open>d[k] = v\<close> on a dict: an existing key keeps its position, a new key goes last.\<close>

fun dict_set :: "wire \<Rightarrow> string \<Rightarrow> json \<Rightarrow> wire" where
  "dict_set [] k v = [(k, v)]"
| "dict_set ((k', v') # d) k v =
     (if k' = k then (k, v) # d else (k', v') # dict_set d k v)"

text \<open>Truthiness, as \<open>not x\<close> reads it.\<close>

fun truthy :: "json \<Rightarrow> bool" where
  "truthy JNull = False"
| "truthy (JBool b) = b"
| "truthy (JNum n) = (n \<noteq> 0)"
| "truthy (JStr s) = (s \<noteq> [])"
| "truthy (JArr xs) = (xs \<noteq> [])"
| "truthy (JObj kvs) = (kvs \<noteq> [])"

text \<open>\<open>x[0]\<close>.\<close>

fun subscript0 :: "json \<Rightarrow> exn + json" where
  "subscript0 (JArr []) = Inl IndexError"
| "subscript0 (JArr (x # xs)) = Inr x"
| "subscript0 (JStr []) = Inl IndexError"
| "subscript0 (JStr (c # cs)) = Inr (JStr [c])"
| "subscript0 (JObj kvs) = Inl KeyError"
| "subscript0 JNull = Inl TypeError"
| "subscript0 (JBool b) = Inl TypeError"
| "subscript0 (JNum n) = Inl TypeError"

text \<open>\<open>x.get(k)\<close>: only a dict has the method.\<close>

fun attr_get :: "json \<Rightarrow> string \<Rightarrow> exn + json" where
  "attr_get (JObj kvs) k = Inr (dict_get kvs k)"
| "attr_get JNull k = Inl AttributeError"
| "attr_get (JBool b) k = Inl AttributeError"
| "attr_get (JNum n) k = Inl AttributeError"
| "attr_get (JStr s) k = Inl AttributeError"
| "attr_get (JArr xs) k = Inl AttributeError"

text \<open>\<open>x[k]\<close> with a string key.\<close>

fun subscript :: "json \<Rightarrow> string \<Rightarrow> exn + json" where
  "subscript (JObj kvs) k = (case map_of kvs k of None \<Rightarrow> Inl KeyError | Some v \<Rightarrow> Inr v)"
| "subscript JNull k = Inl TypeError"
| "subscript (JBool b) k = Inl TypeError"
| "subscript (JNum n) k = Inl TypeError"
| "subscript (JStr s) k = Inl TypeError"
| "subscript (JArr xs) k = Inl TypeError"

text \<open>\<open>for x in v\<close>: the elements a value yields when iterated.\<close>

fun py_iter :: "json \<Rightarrow> exn + json list" where
  "py_iter (JArr xs) = Inr xs"
| "py_iter (JObj kvs) = Inr (map (\<lambda>kv. JStr (fst kv)) kvs)"
| "py_iter (JStr s) = Inr (map (\<lambda>c. JStr [c]) s)"
| "py_iter JNull = Inl TypeError"
| "py_iter (JBool b) = Inl TypeError"
| "py_iter (JNum n) = Inl TypeError"

text \<open>\<open>s.rindex(c)\<close>: the last index of \<open>c\<close> in \<open>s\<close>; \<open>None\<close> stands for the ValueError.\<close>

fun rindex :: "string \<Rightarrow> char \<Rightarrow> nat option" where
  "rindex [] c = None"
| "rindex (x # xs) c =
     (case rindex xs c of
        Some i \<Rightarrow> Some (Suc i)
      | None \<Rightarrow> (if x = c then Some 0 else None))"

section \<open>Domain objects\<close>

text \<open>
  A member of a Python \<open>Enum\<close> has a symbolic \<open>name\<close> and a \<open>value\<close>. The enum declarations
  (severity, source, finding type, subject type, enrichment category) live in other
  modules, so a member is the pair of the two.
\<close>

record enum_member =
  enum_name :: string
  enum_value :: json

record k8s_diff =
  diffs :: "string list"  \<comment> \<open>the \<open>formatted_path\<close> of each diff\<close>
  old :: json
  new :: json
  resource_name :: json
  num_additions :: int
  num_deletions :: int
  num_modifications :: int

text \<open>
  The constructor of a block is the first \<open>isinstance\<close> test of \<open>to_evidence\<close> that the block
  passes; \<open>OtherBlock\<close> is a block that passes none of them.
\<close>

datatype block =
  MarkdownBlock string
| DividerBlock
| FileBlock string string  \<comment> \<open>filename, contents\<close>
| HeaderBlock string
| ListBlock "json list"
| TableBlock "json list" "json list" json  \<comment> \<open>headers, rows, column renderers\<close>
| KubernetesDiffBlock k8s_diff
| CallbackBlock "(string \<times> string) list" wire  \<comment> \<open>choices (text, callback), context\<close>
| OtherBlock string

record Enrichment =
  blocks :: "block list"
  category :: "enum_member option"

record FindingSubject =
  subject_name :: json
  subject_namespace :: json
  subject_type :: enum_member

record Finding =
  aggregation_key :: json
  severity :: enum_member
  subject :: FindingSubject
  source :: enum_member
  finding_type :: enum_member
  fingerprint :: json
  title :: json
  description :: json
  failure :: json
  enrichments :: "Enrichment list"

record ServiceInfo =
  service_name :: json
  service_type :: json
  service_namespace :: json
  classification :: json
  deleted :: json

section \<open>The world outside: backend, clock, log\<close>

datatype level = ERROR | INFO

datatype query =
  Insert string wire bool  \<comment> \<open>table, row, upsert\<close>
| Select string "string list" "(string \<times> string \<times> json) list"  \<comment> \<open>table, columns, filters\<close>

text \<open>Everything the layer does to the outside, in the order it does it.\<close>

datatype event =
  Log level string
| HttpPost string wire
| Execute query
| AuthSignIn string string

record http_response =
  status :: int
  body :: "json option"  \<comment> \<open>\<open>None\<close>: the body is not JSON, \<open>response.json()\<close> raises\<close>

text \<open>
  The environment answers every outside call as a function of what has happened so far.
  It also holds the constants and helper functions that \<open>supabase_dal.py\<close> imports from
  other modules and libraries.
\<close>

record env =
  clock :: "nat \<Rightarrow> real"  \<comment> \<open>the successive readings of the system clock\<close>
  post :: "event list \<Rightarrow> string \<Rightarrow> wire \<Rightarrow> exn + http_response"  \<comment> \<open>\<open>requests.post\<close>\<close>
  execute :: "event list \<Rightarrow> query \<Rightarrow> exn + wire"  \<comment> \<open>\<open>client.table(..)...execute()\<close>\<close>
  auth_sign_in :: "event list \<Rightarrow> string \<Rightarrow> string \<Rightarrow> exn option"  \<comment> \<open>\<open>client.auth.sign_in\<close>\<close>
  SUPABASE_LOGIN_RATE_LIMIT_SEC :: real
  TARGET_ID :: string
  guess_service_key :: "json \<Rightarrow> json \<Rightarrow> json"
  to_github_markdown :: "string \<Rightarrow> string"
  b64encode_str :: "string \<Rightarrow> string"
  create_for_func_json :: "string \<Rightarrow> string \<Rightarrow> string \<Rightarrow> string"
  json_dumps :: "json \<Rightarrow> string"
  py_str :: "json \<Rightarrow> string"
  isoformat :: "real \<Rightarrow> string"
  get_service_key :: "ServiceInfo \<Rightarrow> json"

definition SERVICES_TABLE :: string where
  "SERVICES_TABLE = ''Services''"

section \<open>SupabaseDal\<close>

record SupabaseDal =
  url :: string
  key :: string
  account_id :: string
  cluster :: string
  email :: string
  password :: string
  sign_in_time :: real
  target_id :: string
  sink_name :: string

text \<open>The object together with the clock position and the trace of outside events.\<close>

record state = SupabaseDal +
  ticks :: nat
  trace :: "event list"

definition log :: "level \<Rightarrow> string \<Rightarrow> state \<Rightarrow> state" where
  "log l m s = s\<lparr>trace := trace s @ [Log l m]\<rparr>"

text \<open>\<open>time.time()\<close> and \<open>datetime.utcnow()\<close>: one reading of the clock.\<close>

definition time_time :: "env \<Rightarrow> state \<Rightarrow> real \<times> state" where
  "time_time x s = (clock x (ticks s), s\<lparr>ticks := Suc (ticks s)\<rparr>)"

subsection \<open>RobustaClient.rpc\<close>

definition rpc :: "env \<Rightarrow> state \<Rightarrow> string \<Rightarrow> wire \<Rightarrow> (exn + wire) \<times> state" where
  "rpc x s fn params =
     (let path = ''rpc/'' @ fn;
          s' = s\<lparr>trace := trace s @ [HttpPost path params]\<rparr>
      in case post x (trace s) path params of
           Inl e \<Rightarrow> (Inl e, s')
         | Inr r \<Rightarrow>
             (case body r of
                None \<Rightarrow> (Inl JSONDecodeError, s')
              | Some j \<Rightarrow> (Inr [(''data'', j), (''status_code'', JNum (status r))], s')))"

definition table_execute :: "env \<Rightarrow> state \<Rightarrow> query \<Rightarrow> (exn + wire) \<times> state" where
  "table_execute x s q = (execute x (trace s) q, s\<lparr>trace := trace s @ [Execute q]\<rparr>)"

text \<open>\<open>res.get("status_code") not in codes\<close> is \<open>\<not> status_in res codes\<close>.\<close>

definition status_in :: "wire \<Rightarrow> int list \<Rightarrow> bool" where
  "status_in res codes = (dict_get res ''status_code'' \<in> set (map JNum codes))"

subsection \<open>sign_in and handle_supabase_error\<close>

definition sign_in :: "env \<Rightarrow> state \<Rightarrow> (exn + unit) \<times> state" where
  "sign_in x s =
     (let (t, s1) = time_time x s in
      if t > sign_in_time s1 + SUPABASE_LOGIN_RATE_LIMIT_SEC x then
        (let s2 = log INFO ''Supabase dal login'' s1;
             (t', s3) = time_time x s2;
             s4 = s3\<lparr>sign_in_time := t'\<rparr>;
             s5 = s4\<lparr>trace := trace s4 @ [AuthSignIn (email s4) (password s4)]\<rparr>
         in case auth_sign_in x (trace s4) (email s4) (password s4) of
              None \<Rightarrow> (Inr (), s5)
            | Some e \<Rightarrow> (Inl e, s5))
      else (Inr (), s1))"

text \<open>
  \<open>except Exception\<close> catches every exception of \<open>sign_in\<close>. The handler prints the
  traceback and calls \<open>logging.error\<close>; the call is the log event here.
\<close>

definition handle_supabase_error :: "env \<Rightarrow> state \<Rightarrow> (exn + unit) \<times> state" where
  "handle_supabase_error x s =
     (case sign_in x s of
        (Inr u, s') \<Rightarrow> (Inr (), s')
      | (Inl e, s') \<Rightarrow> (Inr (), log ERROR ''Failed to signin on error'' s'))"

text \<open>
  The constructor: the fields, \<open>sign_in_time = 0\<close>, a first \<open>sign_in\<close> whose exception is
  not caught, then \<open>target_id\<close> and \<open>sink_name\<close>.
\<close>

definition init ::
  "env \<Rightarrow> string \<Rightarrow> string \<Rightarrow> string \<Rightarrow> string \<Rightarrow> string \<Rightarrow> string \<Rightarrow> string \<Rightarrow>
     nat \<Rightarrow> event list \<Rightarrow> exn + state" where
  "init x url' key' account_id' email' password' sink_name' cluster_name n tr =
     (let s0 = \<lparr>url = url', key = key', account_id = account_id', cluster = cluster_name,
                email = email', password = password', sign_in_time = 0,
                target_id = [], sink_name = [], ticks = n, trace = tr\<rparr>
      in case sign_in x s0 of
           (Inl e, s1) \<Rightarrow> Inl e
         | (Inr u, s1) \<Rightarrow> Inr (s1\<lparr>target_id := TARGET_ID x, sink_name := sink_name'\<rparr>))"

subsection \<open>Encoders\<close>

text \<open>
  \<open>to_issue\<close> reads the clock (\<open>datetime.utcnow()\<close>), so it returns the state with the
  clock moved on.
\<close>

definition to_issue :: "env \<Rightarrow> state \<Rightarrow> Finding \<Rightarrow> wire \<times> state" where
  "to_issue x s finding =
     (let (now, s') = time_time x s in
     ([(''name'', aggregation_key finding),
      (''account_id'', JStr (account_id s)),
      (''priority'', JStr (enum_name (severity finding))),
      (''service_key'',
         guess_service_key x (subject_name (subject finding)) (subject_namespace (subject finding))),
      (''source'', enum_value (source finding)),
      (''category'', enum_value (finding_type finding)),
      (''fingerprint'', fingerprint finding),
      (''title'', title finding),
      (''start_date'', JStr (isoformat x now)),
      (''end_date'', JNull),
      (''description'', description finding),
      (''is_failure'', failure finding),
      (''subject_type'', enum_value (subject_type (subject finding))),
      (''subject_name'', subject_name (subject finding)),
      (''subject_namespace'', subject_namespace (subject finding)),
      (''subject_cluster'', JStr (cluster s))], s'))"

text \<open>
  One pass of the loop body of \<open>to_evidence\<close>: the entries the block appends to
  \<open>structured_data\<close> (none or one) and the log lines it writes, or the exception it raises.
\<close>

definition callback_entry :: "env \<Rightarrow> wire \<Rightarrow> string \<times> string \<Rightarrow> json" where
  "callback_entry x context tc =
     JObj [(''text'', JStr (fst tc)),
           (''callback'',
              JStr (create_for_func_json x (snd tc) (json_dumps x (JObj context)) (fst tc)))]"

fun encode_block :: "env \<Rightarrow> state \<Rightarrow> block \<Rightarrow> (exn + json list) \<times> event list" where
  "encode_block x s (MarkdownBlock text) =
     (if text = [] then (Inr [], [])
      else (Inr [JObj [(''type'', JStr ''markdown''),
                       (''data'', JStr (to_github_markdown x text))]], []))"
| "encode_block x s DividerBlock = (Inr [JObj [(''type'', JStr ''divider'')]], [])"
| "encode_block x s (FileBlock filename contents) =
     (case rindex filename CHR ''.'' of
        None \<Rightarrow> (Inl ValueError, [])
      | Some last_dot_idx \<Rightarrow>
          (Inr [JObj [(''type'', JStr (drop (last_dot_idx + 1) filename)),
                      (''data'', JStr (b64encode_str x contents))]], []))"
| "encode_block x s (HeaderBlock text) =
     (Inr [JObj [(''type'', JStr ''header''), (''data'', JStr text)]], [])"
| "encode_block x s (ListBlock items) =
     (Inr [JObj [(''type'', JStr ''list''), (''data'', JArr items)]], [])"
| "encode_block x s (TableBlock headers rows column_renderers) =
     (Inr [JObj [(''type'', JStr ''table''),
                 (''data'', JObj [(''headers'', JArr headers),
                                  (''rows'', JArr rows),
                                  (''column_renderers'', column_renderers)])]], [])"
| "encode_block x s (KubernetesDiffBlock b) =
     (Inr [JObj [(''type'', JStr ''diff''),
                 (''data'', JObj [(''old'', old b),
                                  (''new'', new b),
                                  (''resource_name'', resource_name b),
                                  (''num_additions'', JNum (num_additions b)),
                                  (''num_deletions'', JNum (num_deletions b)),
                                  (''num_modifications'', JNum (num_modifications b)),
                                  (''updated_paths'', JArr (map JStr (diffs b)))])]], [])"
| "encode_block x s (CallbackBlock choices context) =
     (let context1 = dict_set context ''target_id'' (JStr (target_id s));
          context2 = dict_set context1 ''sink_name'' (JStr (sink_name s))
      in (Inr [JObj [(''type'', JStr ''callbacks''),
                     (''data'', JArr (map (callback_entry x context2) choices))]], []))"
| "encode_block x s (OtherBlock ty) =
     (Inr [], [Log ERROR ''cannot convert block to robusta platform format block''])"

text \<open>The loop of \<open>to_evidence\<close>, with \<open>structured_data\<close> and the log lines as accumulators.\<close>

fun structured_data ::
  "env \<Rightarrow> state \<Rightarrow> block list \<Rightarrow> json list \<Rightarrow> event list \<Rightarrow> (exn + json list) \<times> event list" where
  "structured_data x s [] acc logs = (Inr acc, logs)"
| "structured_data x s (b # bs) acc logs =
     (case encode_block x s b of
        (Inl e, l) \<Rightarrow> (Inl e, logs @ l)
      | (Inr es, l) \<Rightarrow> structured_data x s bs (acc @ es) (logs @ l))"

definition to_evidence ::
  "env \<Rightarrow> state \<Rightarrow> json \<Rightarrow> Enrichment \<Rightarrow> (exn + wire) \<times> event list" where
  "to_evidence x s finding_id enrichment =
     (case structured_data x s (blocks enrichment) [] [] of
        (Inl e, l) \<Rightarrow> (Inl e, l)
      | (Inr sd, l) \<Rightarrow>
          (Inr [(''finding_id'', JStr (py_str x finding_id)),
                (''data'', JStr (json_dumps x (JArr sd))),
                (''account_id'', JStr (account_id s)),
                (''category'',
                   (case category enrichment of None \<Rightarrow> JNull | Some c \<Rightarrow> enum_value c))], l))"

definition to_service :: "env \<Rightarrow> state \<Rightarrow> ServiceInfo \<Rightarrow> wire" where
  "to_service x s service =
     [(''name'', service_name service),
      (''type'', service_type service),
      (''namespace'', service_namespace service),
      (''classification'', classification service),
      (''cluster'', JStr (cluster s)),
      (''account_id'', JStr (account_id s)),
      (''deleted'', deleted service),
      (''service_key'', get_service_key x service),
      (''update_time'', JStr ''now()'')]"

subsection \<open>persist_finding, persist_service, get_active_services\<close>

text \<open>The loop over \<open>finding.enrichments\<close>.\<close>

fun persist_enrichments ::
  "env \<Rightarrow> state \<Rightarrow> json \<Rightarrow> Enrichment list \<Rightarrow> (exn + unit) \<times> state" where
  "persist_enrichments x s finding_id [] = (Inr (), s)"
| "persist_enrichments x s finding_id (enrichment # rest) =
     (case to_evidence x s finding_id enrichment of
        (Inl e, l) \<Rightarrow> (Inl e, s\<lparr>trace := trace s @ l\<rparr>)
      | (Inr evidence, l) \<Rightarrow>
          (case rpc x (s\<lparr>trace := trace s @ l\<rparr>) ''insert_enrichment_v1'' evidence of
             (Inl e, s1) \<Rightarrow> (Inl e, s1)
           | (Inr res, s1) \<Rightarrow>
               persist_enrichments x
                 (if \<not> status_in res [200, 201]
                  then log ERROR ''Failed to persist enrichment. Dropping enrichment'' s1
                  else s1)
                 finding_id rest))"

definition persist_finding :: "env \<Rightarrow> state \<Rightarrow> Finding \<Rightarrow> (exn + unit) \<times> state" where
  "persist_finding x s finding =
     (let (issue, s0) = to_issue x s finding in
      case rpc x s0 ''insert_finding_v1'' issue of
        (Inl e, s1) \<Rightarrow> (Inl e, s1)
      | (Inr res, s1) \<Rightarrow>
          if \<not> status_in res [200, 201] then
            handle_supabase_error x (log ERROR ''Failed to persist finding. Dropping Finding'' s1)
          else
            (case subscript0 (dict_get res ''data'') of
               Inl e \<Rightarrow> (Inl e, s1)
             | Inr res_data \<Rightarrow>
                 (case attr_get res_data ''id'' of
                    Inl e \<Rightarrow> (Inl e, s1)
                  | Inr finding_id \<Rightarrow>
                      (case attr_get res_data ''inserted'' of
                         Inl e \<Rightarrow> (Inl e, s1)
                       | Inr new_finding \<Rightarrow>
                           persist_enrichments x
                             (if \<not> truthy new_finding
                              then log INFO
                                ''this finding already exists in supabase; updating existing'' s1
                              else s1)
                             finding_id (enrichments finding)))))"

definition persist_service :: "env \<Rightarrow> state \<Rightarrow> ServiceInfo \<Rightarrow> (exn + unit) \<times> state" where
  "persist_service x s service =
     (let db_service = to_service x s service in
      case table_execute x s (Insert SERVICES_TABLE db_service True) of
        (Inl e, s1) \<Rightarrow> (Inl e, s1)
      | (Inr res, s1) \<Rightarrow>
          if \<not> status_in res [200, 201] then
            handle_supabase_error x (log ERROR ''Failed to persist service'' s1)
          else (Inr (), s1))"

text \<open>
  One element of the list comprehension of \<open>get_active_services\<close>. The \<open>deleted\<close> field of
  the new object is the default of the \<open>ServiceInfo\<close> class, which is declared in another
  module, so it is a parameter.
\<close>

definition service_of_row :: "json \<Rightarrow> json \<Rightarrow> exn + ServiceInfo" where
  "service_of_row deleted_default service =
     (case subscript service ''name'' of
        Inl e \<Rightarrow> Inl e
      | Inr n \<Rightarrow>
          (case subscript service ''type'' of
             Inl e \<Rightarrow> Inl e
           | Inr t \<Rightarrow>
               (case subscript service ''namespace'' of
                  Inl e \<Rightarrow> Inl e
                | Inr ns \<Rightarrow>
                    (case subscript service ''classification'' of
                       Inl e \<Rightarrow> Inl e
                     | Inr c \<Rightarrow>
                         Inr \<lparr>service_name = n, service_type = t, service_namespace = ns,
                              classification = c, deleted = deleted_default\<rparr>))))"

fun services_of_rows :: "json \<Rightarrow> json list \<Rightarrow> exn + ServiceInfo list" where
  "services_of_rows dd [] = Inr []"
| "services_of_rows dd (r # rs) =
     (case service_of_row dd r of
        Inl e \<Rightarrow> Inl e
      | Inr sv \<Rightarrow>
          (case services_of_rows dd rs of
             Inl e \<Rightarrow> Inl e
           | Inr svs \<Rightarrow> Inr (sv # svs)))"

definition active_services_query :: "state \<Rightarrow> query" where
  "active_services_query s =
     Select SERVICES_TABLE [''name'', ''type'', ''namespace'', ''classification'']
       [(''account_id'', ''eq'', JStr (account_id s)),
        (''cluster'', ''eq'', JStr (cluster s)),
        (''deleted'', ''eq'', JBool False)]"

definition get_active_services ::
  "env \<Rightarrow> json \<Rightarrow> state \<Rightarrow> (exn + ServiceInfo list) \<times> state" where
  "get_active_services x deleted_default s =
     (case table_execute x s (active_services_query s) of
        (Inl e, s1) \<Rightarrow> (Inl e, s1)
      | (Inr res, s1) \<Rightarrow>
          if \<not> status_in res [200] then
            (let s2 = log ERROR ''Failed to get existing services (supabase)'' s1;
                 s3 = snd (handle_supabase_error x s2)
             in (Inl (PyException ''Failed to get existing services (supabase)''), s3))
          else
            (case py_iter (dict_get res ''data'') of
               Inl e \<Rightarrow> (Inl e, s1)
             | Inr rows \<Rightarrow> (services_of_rows deleted_default rows, s1)))"

section \<open>Observations on traces, and example inputs\<close>

fun is_sign_in :: "event \<Rightarrow> bool" where
  "is_sign_in (AuthSignIn e p) = True"
| "is_sign_in (Log l m) = False"
| "is_sign_in (HttpPost p w) = False"
| "is_sign_in (Execute q) = False"

definition sign_in_calls :: "event list \<Rightarrow> nat" where
  "sign_in_calls tr = length (filter is_sign_in tr)"

fun sign_in_attempts :: "env \<Rightarrow> nat \<Rightarrow> state \<Rightarrow> (exn + unit) list \<times> state" where
  "sign_in_attempts x 0 s = ([], s)"
| "sign_in_attempts x (Suc n) s =
     (case sign_in x s of
        (r, s') \<Rightarrow> (case sign_in_attempts x n s' of (rs, s'') \<Rightarrow> (r # rs, s'')))"

definition readings :: "real list \<Rightarrow> nat \<Rightarrow> real" where
  "readings ts n = (if n < length ts then ts ! n else last ts)"

definition example_env :: env where
  "example_env =
     \<lparr>clock = readings [1000, 1001, 1500, 2000],
      post = (\<lambda>h p w. Inr \<lparr>status = 200, body = Some (JArr [JObj [(''id'', JStr ''f1''), (''inserted'', JBool True)]])\<rparr>),
      execute = (\<lambda>h q. Inr [(''data'', JArr []), (''status_code'', JNum 200)]),
      auth_sign_in = (\<lambda>h e p. Some (Raised ''ConnectionError'')),
      SUPABASE_LOGIN_RATE_LIMIT_SEC = 900,
      TARGET_ID = ''target'',
      guess_service_key = (\<lambda>n ns. JStr ''svc''),
      to_github_markdown = (\<lambda>t. t),
      b64encode_str = (\<lambda>c. c),
      create_for_func_json = (\<lambda>cb ctx text. cb),
      json_dumps = (\<lambda>j. ''json''),
      py_str = (\<lambda>j. ''id''),
      isoformat = (\<lambda>t. ''now''),
      get_service_key = (\<lambda>sv. JStr ''key'')\<rparr>"

definition example_dal :: state where
  "example_dal =
     \<lparr>url = ''https://db.example'', key = ''k'', account_id = ''acct'', cluster = ''prod'',
      email = ''bot@example.com'', password = ''pw'', sign_in_time = 0,
      target_id = ''target'', sink_name = ''ui'', ticks = 0, trace = []\<rparr>"

definition example_finding :: Finding where
  "example_finding =
     \<lparr>aggregation_key = JStr ''ConfigChanged'',
      severity = \<lparr>enum_name = ''HIGH'', enum_value = JNum 4\<rparr>,
      subject = \<lparr>subject_name = JStr ''web'', subject_namespace = JStr ''default'',
                 subject_type = \<lparr>enum_name = ''TYPE_POD'', enum_value = JStr ''pod''\<rparr>\<rparr>,
      source = \<lparr>enum_name = ''MANUAL'', enum_value = JStr ''manual''\<rparr>,
      finding_type = \<lparr>enum_name = ''CONF_CHANGE'', enum_value = JStr ''configuration_change''\<rparr>,
      fingerprint = JStr ''abc'',
      title = JStr ''config changed'',
      description = JNull,
      failure = JBool True,
      enrichments =
        [\<lparr>blocks = [MarkdownBlock ''hello'', DividerBlock, OtherBlock ''JsonBlock''], category = None\<rparr>,
         \<lparr>blocks = [HeaderBlock ''details''], category = None\<rparr>]\<rparr>"

definition example_service :: ServiceInfo where
  "example_service =
     \<lparr>service_name = JStr ''web'', service_type = JStr ''Deployment'',
      service_namespace = JStr ''default'', classification = JStr ''None'',
      deleted = JBool False\<rparr>"

fun well_named :: "block \<Rightarrow> bool" where
  "well_named (FileBlock filename contents) = (CHR ''.'' \<in> set filename)"
| "well_named b = True"

fun is_request :: "event \<Rightarrow> bool" where
  "is_request (HttpPost p w) = True"
| "is_request (Execute q) = True"
| "is_request (Log l m) = False"
| "is_request (AuthSignIn e p) = False"

definition requests_sent :: "event list \<Rightarrow> event list" where
  "requests_sent tr = filter is_request tr"

definition rejecting_env :: env where
  "rejecting_env =
     example_env
       \<lparr>post := (\<lambda>h p w. Inr \<lparr>status = 500, body = Some JNull\<rparr>),
        execute := (\<lambda>h q. Inr [(''data'', JNull), (''status_code'', JNum 500)])\<rparr>"

definition unreachable_env :: env where
  "unreachable_env =
     example_env
       \<lparr>post := (\<lambda>h p w. Inl (Raised ''ConnectionError'')),
        execute := (\<lambda>h q. Inl (Raised ''ConnectionError''))\<rparr>"

definition granting_env :: env where
  "granting_env = example_env\<lparr>auth_sign_in := (\<lambda>h e p. None)\<rparr>"


text \<open>
  A stub of the remote store for table queries. The store is an external service, so its
  part of the contract is written down here: a select answers with status 200 and, of the
  rows that satisfy every \<open>eq\<close> filter, the selected columns.
\<close>

definition row_matches :: "(string \<times> string \<times> json) list \<Rightarrow> wire \<Rightarrow> bool" where
  "row_matches filters row =
     list_all (\<lambda>flt. fst (snd flt) = ''eq'' \<and> map_of row (fst flt) = Some (snd (snd flt))) filters"

fun stub_select :: "wire list \<Rightarrow> query \<Rightarrow> wire" where
  "stub_select tbl (Select t cols filters) =
     [(''data'', JArr (map (\<lambda>row. JObj (map (\<lambda>c. (c, dict_get row c)) cols))
                        (filter (row_matches filters) tbl))),
      (''status_code'', JNum 200)]"
| "stub_select tbl (Insert t row upsert) = [(''data'', JArr [JObj row]), (''status_code'', JNum 201)]"

definition service_row ::
  "string \<Rightarrow> string \<Rightarrow> string \<Rightarrow> string \<Rightarrow> bool \<Rightarrow> wire" where
  "service_row n acct cl ns del =
     [(''name'', JStr n), (''type'', JStr ''Deployment''), (''namespace'', JStr ns),
      (''classification'', JStr ''None''), (''cluster'', JStr cl), (''account_id'', JStr acct),
      (''deleted'', JBool del)]"

definition example_table :: "wire list" where
  "example_table =
     [service_row ''web'' ''acct'' ''prod'' ''default'' False,
      service_row ''old'' ''acct'' ''prod'' ''default'' True,
      service_row ''other'' ''acct2'' ''prod'' ''default'' False,
      service_row ''staging'' ''acct'' ''dev'' ''default'' False,
      service_row ''db'' ''acct'' ''prod'' ''data'' False]"


definition service_of :: "json \<Rightarrow> wire \<Rightarrow> ServiceInfo" where
  "service_of deleted_default row =
     \<lparr>service_name = dict_get row ''name'', service_type = dict_get row ''type'',
      service_namespace = dict_get row ''namespace'',
      classification = dict_get row ''classification'', deleted = deleted_default\<rparr>"

definition store_env :: env where
  "store_env = example_env\<lparr>execute := (\<lambda>h q. Inr (stub_select example_table q))\<rparr>"

text \<open>
  The enrichment phase of \<open>persist_finding\<close> as the spec words it, for comparison with the
  loop of the source. A send is answered when the HTTP call returns a JSON body, and
  rejected when its status is neither 200 nor 201. When nothing raises, one enrichment
  adds to the trace the log lines of its encoding, its one send, and one error line if
  the send was rejected (\<open>enrichment_step\<close>); \<open>enrichments_answered\<close> says that every
  enrichment of a list encodes and has its send answered, each at the trace it is made.
\<close>

definition send_answered :: "exn + http_response \<Rightarrow> bool" where
  "send_answered a = (case a of Inl e \<Rightarrow> False | Inr r \<Rightarrow> body r \<noteq> None)"

definition send_rejected :: "exn + http_response \<Rightarrow> bool" where
  "send_rejected a = (case a of Inl e \<Rightarrow> False | Inr r \<Rightarrow> status r \<noteq> 200 \<and> status r \<noteq> 201)"

definition enrichment_step ::
  "env \<Rightarrow> state \<Rightarrow> json \<Rightarrow> event list \<Rightarrow> Enrichment \<Rightarrow> event list" where
  "enrichment_step x s fid h e =
     (let evidence = projr (fst (to_evidence x s fid e));
          h1 = h @ snd (to_evidence x s fid e);
          h2 = h1 @ [HttpPost ''rpc/insert_enrichment_v1'' evidence]
      in if send_rejected (post x h1 ''rpc/insert_enrichment_v1'' evidence)
         then h2 @ [Log ERROR ''Failed to persist enrichment. Dropping enrichment'']
         else h2)"


fun enrichments_answered ::
  "env \<Rightarrow> state \<Rightarrow> json \<Rightarrow> event list \<Rightarrow> Enrichment list \<Rightarrow> bool" where
  "enrichments_answered x s fid h [] = True"
| "enrichments_answered x s fid h (e # es) =
     (\<not> isl (fst (to_evidence x s fid e))
      \<and> send_answered
          (post x (h @ snd (to_evidence x s fid e)) ''rpc/insert_enrichment_v1''
             (projr (fst (to_evidence x s fid e))))
      \<and> enrichments_answered x s fid (enrichment_step x s fid h e) es)"


section \<open>Session management\<close>

lemma sign_in_limited:
  "\<not> sign_in_time s + SUPABASE_LOGIN_RATE_LIMIT_SEC x < clock x (ticks s) \<Longrightarrow>
   sign_in x s = (Inr (), s\<lparr>ticks := Suc (ticks s)\<rparr>)"
  by (simp add: sign_in_def time_time_def)

lemma sign_in_performed:
  "sign_in_time s + SUPABASE_LOGIN_RATE_LIMIT_SEC x < clock x (ticks s) \<Longrightarrow>
   sign_in x s =
     ((case auth_sign_in x (trace s @ [Log INFO ''Supabase dal login'']) (email s) (password s) of
         None \<Rightarrow> Inr () | Some e \<Rightarrow> Inl e),
      s\<lparr>ticks := Suc (Suc (ticks s)), sign_in_time := clock x (Suc (ticks s)),
        trace := trace s @ [Log INFO ''Supabase dal login'', AuthSignIn (email s) (password s)]\<rparr>)"
  by (simp add: sign_in_def time_time_def log_def Let_def split: option.splits)

lemma sign_in_attempts_limited:
  "(\<And>k. k < n \<Longrightarrow> \<not> sign_in_time s + SUPABASE_LOGIN_RATE_LIMIT_SEC x < clock x (ticks s + k)) \<Longrightarrow>
   sign_in_attempts x n s = (replicate n (Inr ()), s\<lparr>ticks := ticks s + n\<rparr>)"
proof (induction n arbitrary: s)
  case 0
  show ?case by simp
next
  case (Suc n)
  have now: "\<not> sign_in_time s + SUPABASE_LOGIN_RATE_LIMIT_SEC x < clock x (ticks s)"
    using Suc.prems [of 0] by simp
  let ?s' = "s\<lparr>ticks := Suc (ticks s)\<rparr>"
  have later: "\<not> sign_in_time ?s' + SUPABASE_LOGIN_RATE_LIMIT_SEC x < clock x (ticks ?s' + k)"
    if "k < n" for k
    using Suc.prems [of "Suc k"] that by simp
  show ?case
    by (simp add: sign_in_limited [OF now] Suc.IH [OF later])
qed

text \<open>
  Claim C5. Sign-in is rate-limited by a timestamp check. Take a first attempt that is due
  (its clock reading is past the last recorded sign-in by more than the minimum interval,
  as for a new object) on a clock that does not run backwards while the attempt records
  its timestamp. A second attempt less than the interval after the first makes no login
  call, so the two attempts make exactly one; a third attempt, once the interval has
  elapsed since the recorded timestamp, makes the second login call. This holds whatever
  the login calls return or raise. The first attempt reads the clock at positions
  \<open>ticks s\<close> (the check) and \<open>ticks s + 1\<close> (the timestamp it records), the second at
  \<open>ticks s + 2\<close>, the third at \<open>ticks s + 3\<close>.
\<close>

theorem sign_in_rate_limit:
  assumes first: "sign_in_time s + SUPABASE_LOGIN_RATE_LIMIT_SEC x < clock x (ticks s)"
    and mono: "clock x (ticks s) \<le> clock x (ticks s + 1)"
    and second: "clock x (ticks s + 2) - clock x (ticks s) < SUPABASE_LOGIN_RATE_LIMIT_SEC x"
    and third: "SUPABASE_LOGIN_RATE_LIMIT_SEC x < clock x (ticks s + 3) - clock x (ticks s + 1)"
  shows "sign_in_calls (trace (snd (sign_in_attempts x 2 s))) = sign_in_calls (trace s) + 1
       \<and> sign_in_calls (trace (snd (sign_in_attempts x 3 s))) = sign_in_calls (trace s) + 2"
proof -
  define s1 where "s1 = snd (sign_in x s)"
  define s2 where "s2 = snd (sign_in x s1)"
  define s3 where "s3 = snd (sign_in x s2)"
  have s1: "ticks s1 = ticks s + 2" "sign_in_time s1 = clock x (ticks s + 1)"
    "sign_in_calls (trace s1) = sign_in_calls (trace s) + 1"
    unfolding s1_def using sign_in_performed [OF first] by (simp_all add: sign_in_calls_def)
  have lim: "\<not> sign_in_time s1 + SUPABASE_LOGIN_RATE_LIMIT_SEC x < clock x (ticks s1)"
    using mono second by (simp add: s1)
  have s2: "ticks s2 = ticks s + 3" "sign_in_time s2 = clock x (ticks s + 1)"
    "sign_in_calls (trace s2) = sign_in_calls (trace s) + 1"
    unfolding s2_def using sign_in_limited [OF lim] by (simp_all add: s1)
  have perf: "sign_in_time s2 + SUPABASE_LOGIN_RATE_LIMIT_SEC x < clock x (ticks s2)"
    using third by (simp add: s2)
  have s3: "sign_in_calls (trace s3) = sign_in_calls (trace s) + 2"
    unfolding s3_def using sign_in_performed [OF perf] s2(3) by (simp add: sign_in_calls_def)
  have a2: "snd (sign_in_attempts x 2 s) = s2"
    by (simp add: numeral_2_eq_2 s1_def s2_def split: prod.splits)
  have a3: "snd (sign_in_attempts x 3 s) = s3"
    by (simp add: numeral_3_eq_3 s1_def s2_def s3_def split: prod.splits)
  show ?thesis
    unfolding a2 a3 using s2(3) s3 by simp
qed

theorem sign_in_rate_limit_witness:
  "sign_in_calls (trace (snd (sign_in_attempts example_env 2 example_dal))) = 1
   \<and> sign_in_calls (trace (snd (sign_in_attempts example_env 3 example_dal))) = 2"
  using sign_in_rate_limit [of example_dal example_env]
  by (simp add: example_env_def example_dal_def readings_def sign_in_calls_def)

text \<open>
  Claim C10. \<open>sign_in\<close> records the timestamp before it issues the login call: when the
  login call raises, the exception reaches the caller of \<open>sign_in\<close> and the timestamp is
  already the new one. Any number of later \<open>sign_in\<close> calls whose clock readings are
  within the interval of that timestamp return normally and change nothing but the clock
  position: no login call, no log line, the same timestamp.
\<close>

theorem failed_sign_in_consumes_window:
  assumes due: "sign_in_time s + SUPABASE_LOGIN_RATE_LIMIT_SEC x < clock x (ticks s)"
    and fails: "auth_sign_in x (trace s @ [Log INFO ''Supabase dal login'']) (email s) (password s) = Some e"
    and window: "\<forall>k<n. clock x (ticks s + 2 + k) \<le> clock x (ticks s + 1) + SUPABASE_LOGIN_RATE_LIMIT_SEC x"
  shows "fst (sign_in x s) = Inl e
       \<and> sign_in_time (snd (sign_in x s)) = clock x (ticks s + 1)
       \<and> sign_in_attempts x n (snd (sign_in x s)) =
           (replicate n (Inr ()), (snd (sign_in x s))\<lparr>ticks := ticks s + 2 + n\<rparr>)"
proof -
  define s1 where "s1 = snd (sign_in x s)"
  have s1: "ticks s1 = ticks s + 2" "sign_in_time s1 = clock x (ticks s + 1)"
    and r: "fst (sign_in x s) = Inl e"
    unfolding s1_def using sign_in_performed [OF due] fails by simp_all
  have "\<not> sign_in_time s1 + SUPABASE_LOGIN_RATE_LIMIT_SEC x < clock x (ticks s1 + k)" if "k < n" for k
    using window that by (simp add: s1 not_less)
  then have "sign_in_attempts x n s1 = (replicate n (Inr ()), s1\<lparr>ticks := ticks s1 + n\<rparr>)"
    by (rule sign_in_attempts_limited)
  then show ?thesis
    using r s1 by (simp add: s1_def)
qed

theorem failed_sign_in_consumes_window_witness:
  "fst (sign_in example_env example_dal) = Inl (Raised ''ConnectionError'')
   \<and> sign_in_time (snd (sign_in example_env example_dal)) = 1001
   \<and> sign_in_attempts example_env 1 (snd (sign_in example_env example_dal)) =
       ([Inr ()], (snd (sign_in example_env example_dal))\<lparr>ticks := 3\<rparr>)"
  using failed_sign_in_consumes_window [of example_dal example_env "Raised ''ConnectionError''" 1]
  by (simp add: example_env_def example_dal_def readings_def)

text \<open>
  Claim C6. \<open>handle_supabase_error\<close> never raises. It always runs the rate-limited
  \<open>sign_in\<close>: when that raises, the exception is swallowed and an error line is logged on
  top of what \<open>sign_in\<close> did; when it returns, the state is the one \<open>sign_in\<close> left.
\<close>

theorem handle_supabase_error_swallows:
  "fst (handle_supabase_error x s) = Inr ()
   \<and> (\<forall>e. fst (sign_in x s) = Inl e \<longrightarrow>
         snd (handle_supabase_error x s) = log ERROR ''Failed to signin on error'' (snd (sign_in x s)))
   \<and> (fst (sign_in x s) = Inr () \<longrightarrow> snd (handle_supabase_error x s) = snd (sign_in x s))"
  by (auto simp: handle_supabase_error_def split: prod.splits sum.splits)

theorem handle_supabase_error_swallows_witness:
  "fst (sign_in example_env example_dal) = Inl (Raised ''ConnectionError'')
   \<and> fst (handle_supabase_error example_env example_dal) = Inr ()
   \<and> trace (snd (handle_supabase_error example_env example_dal)) =
       [Log INFO ''Supabase dal login'', AuthSignIn ''bot@example.com'' ''pw'',
        Log ERROR ''Failed to signin on error'']
   \<and> fst (sign_in granting_env example_dal) = Inr ()
   \<and> fst (handle_supabase_error granting_env example_dal) = Inr ()
   \<and> trace (snd (handle_supabase_error granting_env example_dal)) =
       [Log INFO ''Supabase dal login'', AuthSignIn ''bot@example.com'' ''pw'']"
  using handle_supabase_error_swallows [of example_env example_dal]
    handle_supabase_error_swallows [of granting_env example_dal]
    sign_in_performed [of example_dal example_env]
    sign_in_performed [of example_dal granting_env]
  by (simp add: granting_env_def example_env_def example_dal_def readings_def log_def)

section \<open>Record encoders\<close>

lemma rindex_None: "rindex s c = None \<longleftrightarrow> c \<notin> set s"
  by (induction s) (auto split: option.splits)

lemma encode_block_well_named:
  "well_named b \<Longrightarrow> \<exists>es l. encode_block x s b = (Inr es, l)"
  by (cases b) (auto simp: rindex_None Let_def split: option.splits)

lemma structured_data_acc:
  "structured_data x s bs acc logs =
     (case structured_data x s bs [] [] of
        (Inl e, l) \<Rightarrow> (Inl e, logs @ l)
      | (Inr es, l) \<Rightarrow> (Inr (acc @ es), logs @ l))"
proof (induction bs arbitrary: acc logs)
  case Nil
  show ?case by simp
next
  case (Cons b bs)
  obtain r l where b: "encode_block x s b = (r, l)" by (cases "encode_block x s b")
  show ?case
  proof (cases r)
    case (Inl e)
    with b show ?thesis by simp
  next
    case (Inr es)
    show ?thesis
      using b Inr Cons.IH [of "acc @ es" "logs @ l"] Cons.IH [of es l]
      by (simp split: prod.splits sum.splits)
  qed
qed

lemma structured_data_append:
  "structured_data x s (bs1 @ bs2) acc logs =
     (case structured_data x s bs1 acc logs of
        (Inl e, l) \<Rightarrow> (Inl e, l)
      | (Inr a, l) \<Rightarrow> structured_data x s bs2 a l)"
  by (induction bs1 arbitrary: acc logs) (auto split: prod.splits sum.splits)

lemma structured_data_well_named:
  "list_all well_named bs \<Longrightarrow> \<exists>sd l. structured_data x s bs acc logs = (Inr sd, l)"
proof (induction bs arbitrary: acc logs)
  case Nil
  show ?case by simp
next
  case (Cons b bs)
  then obtain es l where "encode_block x s b = (Inr es, l)"
    using encode_block_well_named [of b x s] by auto
  with Cons show ?case by simp
qed

lemma to_evidence_well_named:
  "list_all well_named (blocks e) \<Longrightarrow> \<exists>ev l. to_evidence x s fid e = (Inr ev, l)"
  using structured_data_well_named [of "blocks e" x s "[]" "[]"]
  by (auto simp: to_evidence_def)

text \<open>
  Claim C7. Every wire record the encoders produce carries the configured \<open>account_id\<close>:
  the Issue record of \<open>to_issue\<close>, the Service record of \<open>to_service\<close>, and the Evidence
  record of \<open>to_evidence\<close> whenever it returns one. The Issue record carries the configured
  cluster as \<open>subject_cluster\<close>, the Service record as \<open>cluster\<close>.
\<close>

theorem wire_records_carry_tenancy:
  "map_of (fst (to_issue x s f)) ''account_id'' = Some (JStr (account_id s))
   \<and> map_of (fst (to_issue x s f)) ''subject_cluster'' = Some (JStr (cluster s))
   \<and> map_of (to_service x s sv) ''account_id'' = Some (JStr (account_id s))
   \<and> map_of (to_service x s sv) ''cluster'' = Some (JStr (cluster s))
   \<and> (\<forall>ev l. to_evidence x s fid e = (Inr ev, l) \<longrightarrow>
         map_of ev ''account_id'' = Some (JStr (account_id s)))"
  by (auto simp: to_issue_def to_service_def to_evidence_def time_time_def
      split: prod.splits sum.splits)

theorem wire_records_carry_tenancy_witness:
  "to_evidence example_env example_dal (JStr ''f1'') (hd (enrichments example_finding)) =
     (Inr [(''finding_id'', JStr ''id''), (''data'', JStr ''json''),
           (''account_id'', JStr ''acct''), (''category'', JNull)],
      [Log ERROR ''cannot convert block to robusta platform format block''])
   \<and> map_of (fst (to_issue example_env example_dal example_finding)) ''subject_cluster'' =
       Some (JStr ''prod'')
   \<and> map_of (to_service example_env example_dal example_service) ''cluster'' = Some (JStr ''prod'')"
  using wire_records_carry_tenancy
    [of example_env example_dal example_finding example_service "JStr ''f1''"
      "hd (enrichments example_finding)"]
  by (simp add: example_env_def example_dal_def example_finding_def to_evidence_def)

text \<open>
  Claim C8, as stated, fails: \<open>category\<close> and \<open>subject_type\<close> are the \<open>value\<close> of their
  enum members, not the symbolic \<open>name\<close>. For a finding type named \<open>CONF_CHANGE\<close> with value
  \<open>configuration_change\<close> the Issue record holds the latter.
\<close>

theorem to_issue_category_counterexample:
  "map_of (fst (to_issue example_env example_dal example_finding)) ''category'' =
     Some (JStr ''configuration_change'')
   \<and> enum_name (finding_type example_finding) = ''CONF_CHANGE''
   \<and> map_of (fst (to_issue example_env example_dal example_finding)) ''subject_type'' =
     Some (JStr ''pod'')
   \<and> enum_name (subject_type (subject example_finding)) = ''TYPE_POD''"
  by (simp add: to_issue_def time_time_def example_finding_def)

text \<open>
  Claim C8, amended. \<open>to_issue\<close> maps a Finding to one Issue record, field by field:
  \<open>priority\<close> is the symbolic name of the severity; \<open>category\<close>, \<open>subject_type\<close> and
  \<open>source\<close> are the values of their enum members; \<open>start_date\<close> is the clock reading at
  encode time in ISO format; \<open>end_date\<close> is null; the other fields are copied.
\<close>

theorem to_issue_fields:
  "map_of (fst (to_issue x s f)) ''priority'' = Some (JStr (enum_name (severity f)))
   \<and> map_of (fst (to_issue x s f)) ''category'' = Some (enum_value (finding_type f))
   \<and> map_of (fst (to_issue x s f)) ''subject_type'' = Some (enum_value (subject_type (subject f)))
   \<and> map_of (fst (to_issue x s f)) ''start_date'' = Some (JStr (isoformat x (clock x (ticks s))))
   \<and> map_of (fst (to_issue x s f)) ''end_date'' = Some JNull
   \<and> map_of (fst (to_issue x s f)) ''name'' = Some (aggregation_key f)
   \<and> map_of (fst (to_issue x s f)) ''source'' = Some (enum_value (source f))
   \<and> map_of (fst (to_issue x s f)) ''fingerprint'' = Some (fingerprint f)
   \<and> map_of (fst (to_issue x s f)) ''title'' = Some (title f)
   \<and> map_of (fst (to_issue x s f)) ''description'' = Some (description f)
   \<and> map_of (fst (to_issue x s f)) ''is_failure'' = Some (failure f)
   \<and> map_of (fst (to_issue x s f)) ''subject_name'' = Some (subject_name (subject f))
   \<and> map_of (fst (to_issue x s f)) ''subject_namespace'' = Some (subject_namespace (subject f))"
  by (simp add: to_issue_def time_time_def)

text \<open>
  Claim C9. Take an enrichment with a Markdown block of non-empty text, and the same
  enrichment with that block's text empty. If encoding the first raises, encoding the
  second raises the same exception; otherwise both return a structured-data sequence,
  with the same log lines, and the second is one element shorter.
\<close>

theorem empty_markdown_yields_no_entry:
  assumes "text \<noteq> []"
  shows "case structured_data x s (before @ MarkdownBlock text # after) [] [] of
           (Inl e, l) \<Rightarrow> structured_data x s (before @ MarkdownBlock [] # after) [] [] = (Inl e, l)
         | (Inr ys, l) \<Rightarrow>
             (\<exists>xs. structured_data x s (before @ MarkdownBlock [] # after) [] [] = (Inr xs, l)
                    \<and> length ys = Suc (length xs))"
proof -
  obtain r1 l1 where before: "structured_data x s before [] [] = (r1, l1)"
    by (cases "structured_data x s before [] []")
  obtain r2 l2 where after: "structured_data x s after [] [] = (r2, l2)"
    by (cases "structured_data x s after [] []")
  show ?thesis
  proof (cases r1)
    case (Inl e)
    with before show ?thesis by (simp add: structured_data_append)
  next
    case (Inr a)
    note a = this
    let ?m = "JObj [(''type'', JStr ''markdown''), (''data'', JStr (to_github_markdown x text))]"
    have full: "structured_data x s (before @ MarkdownBlock text # after) [] [] =
        structured_data x s after (a @ [?m]) l1"
      using before a assms by (simp add: structured_data_append)
    have empty: "structured_data x s (before @ MarkdownBlock [] # after) [] [] =
        structured_data x s after a l1"
      using before a by (simp add: structured_data_append)
    show ?thesis
      unfolding full empty
      using after
      by (cases r2)
        (simp_all add: structured_data_acc [of x s after "a @ [?m]" l1]
          structured_data_acc [of x s after a l1])
  qed
qed

theorem empty_markdown_yields_no_entry_witness:
  "structured_data example_env example_dal
       ([DividerBlock] @ MarkdownBlock ''hello'' # [HeaderBlock ''h'']) [] [] =
     (Inr [JObj [(''type'', JStr ''divider'')],
           JObj [(''type'', JStr ''markdown''), (''data'', JStr ''hello'')],
           JObj [(''type'', JStr ''header''), (''data'', JStr ''h'')]], [])
   \<and> structured_data example_env example_dal
       ([DividerBlock] @ MarkdownBlock [] # [HeaderBlock ''h'']) [] [] =
     (Inr [JObj [(''type'', JStr ''divider'')],
           JObj [(''type'', JStr ''header''), (''data'', JStr ''h'')]], [])"
  using empty_markdown_yields_no_entry
    [of "''hello''" example_env example_dal "[DividerBlock]" "[HeaderBlock ''h'']"]
  by (simp add: example_env_def)

text \<open>
  Claim C3 says that \<open>to_evidence\<close> never raises. On a File block whose filename has no
  dot, \<open>rindex\<close> raises ValueError and the whole enrichment is lost, the blocks before and
  after it included.
\<close>

theorem to_evidence_raises_on_dotless_filename:
  "to_evidence example_env example_dal (JStr ''f1'')
     \<lparr>blocks = [MarkdownBlock ''hello'', FileBlock ''README'' ''contents'', DividerBlock],
      category = None\<rparr> = (Inl ValueError, [])"
  by (simp add: to_evidence_def)

text \<open>
  A block of an unrecognized variant is dropped with one error line and the loop goes on;
  and \<open>to_evidence\<close> returns a record whenever every File block's filename has a dot
  (\<open>to_evidence_well_named\<close> above).
\<close>

lemma unknown_block_dropped:
  "structured_data x s (OtherBlock ty # bs) acc logs =
     structured_data x s bs acc
       (logs @ [Log ERROR ''cannot convert block to robusta platform format block''])"
  by simp

section \<open>Persistence\<close>

lemma sign_in_requests:
  "requests_sent (trace (snd (sign_in x s))) = requests_sent (trace s)"
  by (cases "sign_in_time s + SUPABASE_LOGIN_RATE_LIMIT_SEC x < clock x (ticks s)")
    (simp_all add: sign_in_limited sign_in_performed requests_sent_def)

lemma handle_supabase_error_returns: "fst (handle_supabase_error x s) = Inr ()"
  by (simp add: handle_supabase_error_def split: prod.splits sum.splits)

lemma handle_supabase_error_requests:
  "requests_sent (trace (snd (handle_supabase_error x s))) = requests_sent (trace s)"
  using sign_in_requests [of x s]
  by (auto simp: handle_supabase_error_def log_def requests_sent_def split: prod.splits sum.splits)

lemma to_issue_state: "snd (to_issue x s f) = s\<lparr>ticks := Suc (ticks s)\<rparr>"
  by (simp add: to_issue_def time_time_def)

text \<open>
  Claim C1, amended. When the backend answers the Issue insert with a status outside
  200 and 201, \<open>persist_finding\<close> logs the failure, runs \<open>handle_supabase_error\<close> and
  returns normally, having sent that one request and no other. When the backend answers
  the Service upsert at all, \<open>persist_service\<close> returns normally having sent that one
  request, and on a status outside 200 and 201 it logs the failure and runs
  \<open>handle_supabase_error\<close>. An exception raised by the backend call itself is not caught:
  it reaches the caller.
\<close>

theorem persist_rejected_write:
  "(\<forall>r j. post x (trace s) ''rpc/insert_finding_v1'' (fst (to_issue x s f)) = Inr r
           \<and> body r = Some j \<and> status r \<noteq> 200 \<and> status r \<noteq> 201 \<longrightarrow>
      persist_finding x s f =
        handle_supabase_error x
          (log ERROR ''Failed to persist finding. Dropping Finding''
             (s\<lparr>ticks := Suc (ticks s),
                trace := trace s @ [HttpPost ''rpc/insert_finding_v1'' (fst (to_issue x s f))]\<rparr>))
      \<and> fst (persist_finding x s f) = Inr ()
      \<and> requests_sent (trace (snd (persist_finding x s f))) =
          requests_sent (trace s) @ [HttpPost ''rpc/insert_finding_v1'' (fst (to_issue x s f))])
   \<and> (\<forall>res. execute x (trace s) (Insert SERVICES_TABLE (to_service x s sv) True) = Inr res \<longrightarrow>
      fst (persist_service x s sv) = Inr ()
      \<and> requests_sent (trace (snd (persist_service x s sv))) =
          requests_sent (trace s) @ [Execute (Insert SERVICES_TABLE (to_service x s sv) True)]
      \<and> (\<not> status_in res [200, 201] \<longrightarrow>
           persist_service x s sv =
             handle_supabase_error x
               (log ERROR ''Failed to persist service''
                  (s\<lparr>trace := trace s @
                       [Execute (Insert SERVICES_TABLE (to_service x s sv) True)]\<rparr>))))
   \<and> (\<forall>e. post x (trace s) ''rpc/insert_finding_v1'' (fst (to_issue x s f)) = Inl e \<longrightarrow>
         fst (persist_finding x s f) = Inl e)
   \<and> (\<forall>e. execute x (trace s) (Insert SERVICES_TABLE (to_service x s sv) True) = Inl e \<longrightarrow>
         fst (persist_service x s sv) = Inl e)"
proof (intro conjI allI impI)
  fix r j
  assume a: "post x (trace s) ''rpc/insert_finding_v1'' (fst (to_issue x s f)) = Inr r
    \<and> body r = Some j \<and> status r \<noteq> 200 \<and> status r \<noteq> 201"
  let ?issue = "fst (to_issue x s f)"
  let ?s1 = "log ERROR ''Failed to persist finding. Dropping Finding''
     (s\<lparr>ticks := Suc (ticks s), trace := trace s @ [HttpPost ''rpc/insert_finding_v1'' ?issue]\<rparr>)"
  have rpc1: "rpc x (s\<lparr>ticks := Suc (ticks s)\<rparr>) ''insert_finding_v1'' ?issue =
      (Inr [(''data'', j), (''status_code'', JNum (status r))],
       s\<lparr>ticks := Suc (ticks s), trace := trace s @ [HttpPost ''rpc/insert_finding_v1'' ?issue]\<rparr>)"
    using a by (simp add: rpc_def)
  have rej: "\<not> status_in [(''data'', j), (''status_code'', JNum (status r))] [200, 201]"
    using a by (simp add: status_in_def dict_get_def)
  show eq: "persist_finding x s f = handle_supabase_error x ?s1"
    by (simp add: persist_finding_def case_prod_beta to_issue_state rpc1 rej)
  show "fst (persist_finding x s f) = Inr ()"
    unfolding eq by (rule handle_supabase_error_returns)
  show "requests_sent (trace (snd (persist_finding x s f))) =
      requests_sent (trace s) @ [HttpPost ''rpc/insert_finding_v1'' ?issue]"
    unfolding eq handle_supabase_error_requests by (simp add: log_def requests_sent_def)
next
  fix res
  assume a: "execute x (trace s) (Insert SERVICES_TABLE (to_service x s sv) True) = Inr res"
  let ?q = "Insert SERVICES_TABLE (to_service x s sv) True"
  let ?s1 = "log ERROR ''Failed to persist service'' (s\<lparr>trace := trace s @ [Execute ?q]\<rparr>)"
  have rej: "persist_service x s sv = handle_supabase_error x ?s1" if "\<not> status_in res [200, 201]"
    using a that by (simp add: persist_service_def table_execute_def)
  have acc: "persist_service x s sv = (Inr (), s\<lparr>trace := trace s @ [Execute ?q]\<rparr>)"
    if "status_in res [200, 201]"
    using a that by (simp add: persist_service_def table_execute_def)
  show "fst (persist_service x s sv) = Inr ()"
    using rej acc handle_supabase_error_returns by (cases "status_in res [200, 201]") simp_all
  show "requests_sent (trace (snd (persist_service x s sv))) = requests_sent (trace s) @ [Execute ?q]"
  proof (cases "status_in res [200, 201]")
    case True
    then show ?thesis by (simp add: acc requests_sent_def)
  next
    case False
    then show ?thesis
      by (simp add: rej handle_supabase_error_requests) (simp add: log_def requests_sent_def)
  qed
  show "persist_service x s sv = handle_supabase_error x ?s1" if "\<not> status_in res [200, 201]"
    using rej that .
next
  fix e
  assume "post x (trace s) ''rpc/insert_finding_v1'' (fst (to_issue x s f)) = Inl e"
  then show "fst (persist_finding x s f) = Inl e"
    by (simp add: persist_finding_def case_prod_beta to_issue_state rpc_def)
next
  fix e
  assume "execute x (trace s) (Insert SERVICES_TABLE (to_service x s sv) True) = Inl e"
  then show "fst (persist_service x s sv) = Inl e"
    by (simp add: persist_service_def table_execute_def)
qed

text \<open>
  Claim C1, as stated, fails: when the HTTP call of the Issue insert raises (the backend
  is unreachable), \<open>persist_finding\<close> raises to its caller.
\<close>

theorem persist_finding_raises_counterexample:
  "fst (persist_finding unreachable_env example_dal example_finding) =
     Inl (Raised ''ConnectionError'')"
  by (simp add: persist_finding_def rpc_def to_issue_def time_time_def unreachable_env_def
      example_env_def split: prod.splits)


theorem persist_rejected_write_witness:
  "fst (persist_finding rejecting_env example_dal example_finding) = Inr ()
   \<and> trace (snd (persist_finding rejecting_env example_dal example_finding)) =
       [HttpPost ''rpc/insert_finding_v1''
          (fst (to_issue rejecting_env example_dal example_finding)),
        Log ERROR ''Failed to persist finding. Dropping Finding'',
        Log INFO ''Supabase dal login'',
        AuthSignIn ''bot@example.com'' ''pw'',
        Log ERROR ''Failed to signin on error'']
   \<and> fst (persist_service rejecting_env example_dal example_service) = Inr ()
   \<and> trace (snd (persist_service rejecting_env example_dal example_service)) =
       [Execute (Insert SERVICES_TABLE
          (to_service rejecting_env example_dal example_service) True),
        Log ERROR ''Failed to persist service'',
        Log INFO ''Supabase dal login'',
        AuthSignIn ''bot@example.com'' ''pw'',
        Log ERROR ''Failed to signin on error'']
   \<and> fst (persist_service unreachable_env example_dal example_service) =
       Inl (Raised ''ConnectionError'')"
  using persist_rejected_write [of rejecting_env example_dal example_finding example_service]
    persist_rejected_write [of unreachable_env example_dal example_finding example_service]
  by (simp add: rejecting_env_def unreachable_env_def example_env_def example_dal_def
      readings_def status_in_def dict_get_def handle_supabase_error_def sign_in_def
      time_time_def log_def)

text \<open>
  The dotless filename seen from \<open>persist_finding\<close>: after a successful Issue insert, an
  enrichment with a File block named without a dot makes the call raise, and the
  enrichment after it is never sent.
\<close>

lemma persist_finding_dotless_filename:
  "fst (persist_finding example_env example_dal
          (example_finding
             \<lparr>enrichments :=
                [\<lparr>blocks = [FileBlock ''README'' ''contents''], category = None\<rparr>,
                 \<lparr>blocks = [HeaderBlock ''details''], category = None\<rparr>]\<rparr>)) = Inl ValueError
   \<and> requests_sent
       (trace (snd (persist_finding example_env example_dal
          (example_finding
             \<lparr>enrichments :=
                [\<lparr>blocks = [FileBlock ''README'' ''contents''], category = None\<rparr>,
                 \<lparr>blocks = [HeaderBlock ''details''], category = None\<rparr>]\<rparr>)))) =
       [HttpPost ''rpc/insert_finding_v1'' (fst (to_issue example_env example_dal example_finding))]"
  by (simp add: persist_finding_def case_prod_beta to_issue_state rpc_def example_env_def
      status_in_def dict_get_def to_evidence_def example_dal_def requests_sent_def
      to_issue_def time_time_def)














lemma enrichments_answered_global:
  assumes "\<forall>h p w. \<exists>r j. post x h p w = Inr r \<and> body r = Some j"
    and "\<forall>e \<in> set es. \<exists>ev l. to_evidence x s fid e = (Inr ev, l)"
  shows "enrichments_answered x s fid h es"
  using assms(2)
proof (induction es arbitrary: h)
  case Nil
  show ?case by simp
next
  case (Cons e es)
  obtain ev l where ev: "to_evidence x s fid e = (Inr ev, l)"
    using Cons.prems by auto
  obtain r j where "post x (h @ l) ''rpc/insert_enrichment_v1'' ev = Inr r" "body r = Some j"
    using assms(1) by blast
  then show ?case
    using ev Cons by (simp add: send_answered_def)
qed







lemma services_of_rows_projected:
  "services_of_rows dd
     (map (\<lambda>row. JObj [(''name'', dict_get row ''name''), (''type'', dict_get row ''type''),
                        (''namespace'', dict_get row ''namespace''),
                        (''classification'', dict_get row ''classification'')]) rows) =
   Inr (map (service_of dd) rows)"
  by (induction rows) (simp_all add: service_of_row_def service_of_def)

lemma row_matches_active:
  "row_matches [(''account_id'', ''eq'', a), (''cluster'', ''eq'', c), (''deleted'', ''eq'', d)] row
   \<longleftrightarrow> map_of row ''account_id'' = Some a \<and> map_of row ''cluster'' = Some c
       \<and> map_of row ''deleted'' = Some d"
  by (simp add: row_matches_def)

text \<open>
  Claim C4. Whenever the query is answered with a status other than 200,
  \<open>get_active_services\<close> raises to its caller. The query it sends selects the rows whose
  \<open>account_id\<close> and \<open>cluster\<close> equal the configured ones and whose \<open>deleted\<close> is false:
  against a store holding the rows \<open>tbl\<close> it returns exactly the \<open>ServiceInfo\<close> records of
  the rows passing all three filters, in the store's order.
\<close>

theorem get_active_services_contract:
  "(\<forall>res. execute x (trace s) (active_services_query s) = Inr res
           \<and> dict_get res ''status_code'' \<noteq> JNum 200 \<longrightarrow>
      fst (get_active_services x dd s) =
        Inl (PyException ''Failed to get existing services (supabase)''))
   \<and> (execute x (trace s) (active_services_query s) =
         Inr (stub_select tbl (active_services_query s)) \<longrightarrow>
      fst (get_active_services x dd s) =
        Inr (map (service_of dd)
               (filter (\<lambda>row. map_of row ''account_id'' = Some (JStr (account_id s))
                             \<and> map_of row ''cluster'' = Some (JStr (cluster s))
                             \<and> map_of row ''deleted'' = Some (JBool False)) tbl)))"
proof (intro conjI allI impI)
  fix res
  assume "execute x (trace s) (active_services_query s) = Inr res
    \<and> dict_get res ''status_code'' \<noteq> JNum 200"
  then show "fst (get_active_services x dd s) =
      Inl (PyException ''Failed to get existing services (supabase)'')"
    by (simp add: get_active_services_def table_execute_def status_in_def)
next
  assume a: "execute x (trace s) (active_services_query s) =
      Inr (stub_select tbl (active_services_query s))"
  have m: "row_matches [(''account_id'', ''eq'', JStr (account_id s)),
        (''cluster'', ''eq'', JStr (cluster s)), (''deleted'', ''eq'', JBool False)] =
      (\<lambda>row. map_of row ''account_id'' = Some (JStr (account_id s))
             \<and> map_of row ''cluster'' = Some (JStr (cluster s))
             \<and> map_of row ''deleted'' = Some (JBool False))"
    by (rule ext) (rule row_matches_active)
  let ?rows = "filter (\<lambda>row. map_of row ''account_id'' = Some (JStr (account_id s))
                           \<and> map_of row ''cluster'' = Some (JStr (cluster s))
                           \<and> map_of row ''deleted'' = Some (JBool False)) tbl"
  let ?data = "JArr (map (\<lambda>row. JObj [(''name'', dict_get row ''name''),
                        (''type'', dict_get row ''type''),
                        (''namespace'', dict_get row ''namespace''),
                        (''classification'', dict_get row ''classification'')]) ?rows)"
  let ?res = "[(''data'', ?data), (''status_code'', JNum 200)]"
  have stub: "stub_select tbl (active_services_query s) = ?res"
    by (simp add: active_services_query_def m)
  have ok: "status_in ?res [200]"
    by (simp add: status_in_def dict_get_def)
  have data: "dict_get ?res ''data'' = ?data"
    by (simp add: dict_get_def)
  have "fst (get_active_services x dd s) =
      (case py_iter (dict_get ?res ''data'') of
         Inl e \<Rightarrow> Inl e | Inr rows \<Rightarrow> services_of_rows dd rows)"
    using a ok unfolding stub
    by (simp add: get_active_services_def table_execute_def split: sum.splits)
  then show "fst (get_active_services x dd s) = Inr (map (service_of dd) ?rows)"
    unfolding data by (simp add: services_of_rows_projected)
qed

theorem get_active_services_contract_witness:
  "fst (get_active_services rejecting_env (JBool False) example_dal) =
     Inl (PyException ''Failed to get existing services (supabase)'')
   \<and> fst (get_active_services store_env (JBool False) example_dal) =
     Inr [\<lparr>service_name = JStr ''web'', service_type = JStr ''Deployment'',
           service_namespace = JStr ''default'', classification = JStr ''None'',
           deleted = JBool False\<rparr>,
          \<lparr>service_name = JStr ''db'', service_type = JStr ''Deployment'',
           service_namespace = JStr ''data'', classification = JStr ''None'',
           deleted = JBool False\<rparr>]"
  using get_active_services_contract [of rejecting_env example_dal "JBool False" example_table]
    get_active_services_contract [of store_env example_dal "JBool False" example_table]
  by (simp add: rejecting_env_def store_env_def example_env_def example_dal_def dict_get_def
      example_table_def service_row_def service_of_def)

end
